theory Spec2Isabelle
  imports Complex_Main "HOL-Library.List_Lexorder" "HOL-Library.Char_ord" "HOL-Library.Multiset"
begin

section \<open>The backing store: one SQLite file with two tables\<close>

text \<open>
  A row of the table \<open>actions\<close>, column by column as \<open>LogStore.initialize\<close> creates it.
  The column \<open>id\<close> is called \<open>action_id\<close> here. \<open>key_was_valid\<close> is an INTEGER
  column (the store writes 1 or 0), \<open>amount\<close> a REAL column, modelled by an exact real
  number. TEXT values are compared with SQLite's default BINARY collation, which is the
  lexicographic order on \<open>string\<close>.
\<close>

record action =
  action_id :: int
  timestamp :: string
  session_id :: string
  action_type :: string
  target :: string
  amount :: real
  description :: string
  verdict :: string
  reason :: string
  key_was_valid :: int
  tier :: int
  created_at :: string

text \<open>
  Modelled from the spec: the table \<open>reviews\<close> is read by the server, but the statement
  that creates it is not part of the sources. Its columns are those of a ReviewRecord
  (section 3 of the specification); \<open>highlights\<close> and \<open>insights\<close> hold serialized JSON.
\<close>

record review =
  review_id :: int
  review_timestamp :: string
  review_session_id :: string
  overall_grade :: string
  overall_score :: real
  goal_alignment_score :: real
  security_compliance_score :: real
  constraint_adherence_score :: real
  total_actions :: int
  verified_actions :: int
  blocked_actions :: int
  highlights :: string
  insights :: string

text \<open>
  The content of \<open>~/.carapace/logs.db\<close>. A table that was never created is \<open>None\<close>;
  \<open>actions_seq\<close> is the AUTOINCREMENT high-water mark of \<open>actions\<close>. A file that does not
  exist is \<open>None :: database option\<close>.
\<close>

record database =
  actions_tbl :: "action list option"
  actions_seq :: int
  reviews_tbl :: "review list option"

section \<open>LogStore\<close>

record LogEntry =
  e_timestamp :: string
  e_action_type :: string
  e_target :: string
  e_amount :: real
  e_description :: string
  e_verdict :: string
  e_reason :: string
  e_key_was_valid :: bool
  e_tier :: "int option"

text \<open>
  The object state: \<open>db\<close> is \<open>None\<close> while \<open>this.db\<close> is null, and otherwise the content
  of the opened file.
\<close>

record LogStore =
  db :: "database option"
  sessionStart :: string

datatype error = NotInitialized | NoSuchTable

text \<open>\<open>new LogStore()\<close>; the argument is \<open>new Date().toISOString()\<close> read at that moment.\<close>

definition constructor :: "string \<Rightarrow> LogStore" where
  "constructor now_iso = \<lparr>db = None, sessionStart = now_iso\<rparr>"

text \<open>
  \<open>initialize()\<close>; \<open>disk\<close> is what is found at the path: the file is created when it is
  missing, and the table \<open>actions\<close> when the file has none.
\<close>

definition initialize :: "database option \<Rightarrow> LogStore \<Rightarrow> LogStore" where
  "initialize disk s =
     s\<lparr>db := Some (case disk of
          None \<Rightarrow> \<lparr>actions_tbl = Some [], actions_seq = 0, reviews_tbl = None\<rparr>
        | Some d \<Rightarrow> (case actions_tbl d of
                       None \<Rightarrow> d\<lparr>actions_tbl := Some []\<rparr>
                     | Some rows \<Rightarrow> d))\<rparr>"

text \<open>The rowid an AUTOINCREMENT table gives to the next row.\<close>

definition next_id :: "int \<Rightarrow> action list \<Rightarrow> int" where
  "next_id seq rows = fold max (map action_id rows) seq + 1"

text \<open>
  \<open>logAction(entry)\<close>; \<open>sql_now\<close> is \<open>datetime('now')\<close>, the default of \<open>created_at\<close>.
  The result is the thrown error or the new id with the store after the insertion.
\<close>

definition logAction :: "string \<Rightarrow> LogEntry \<Rightarrow> LogStore \<Rightarrow> error + (int \<times> LogStore)" where
  "logAction sql_now entry s =
     (case db s of
        None \<Rightarrow> Inl NotInitialized
      | Some d \<Rightarrow>
          (case actions_tbl d of
             None \<Rightarrow> Inl NoSuchTable
           | Some rows \<Rightarrow>
               (let lastInsertRowid = next_id (actions_seq d) rows;
                    row = \<lparr>action_id = lastInsertRowid,
                           timestamp = e_timestamp entry,
                           session_id = sessionStart s,
                           action_type = e_action_type entry,
                           target = e_target entry,
                           amount = e_amount entry,
                           description = e_description entry,
                           verdict = e_verdict entry,
                           reason = e_reason entry,
                           key_was_valid = (if e_key_was_valid entry then 1 else 0),
                           tier = (case e_tier entry of None \<Rightarrow> 0 | Some t \<Rightarrow> t),
                           created_at = sql_now\<rparr>
                in Inr (lastInsertRowid,
                        s\<lparr>db := Some (d\<lparr>actions_tbl := Some (rows @ [row]),
                                        actions_seq := lastInsertRowid\<rparr>)\<rparr>))))"

text \<open>
  \<open>cleanupOldLogs(retentionDays)\<close>; \<open>cutoff_iso n\<close> is the string \<open>cutoff.toISOString()\<close>
  for the clock's \<open>new Date()\<close> moved back by \<open>n\<close> days with \<open>setDate\<close>. The statement is
  \<open>DELETE FROM actions WHERE timestamp < ?\<close>, the result \<open>result.changes\<close>.
\<close>

definition cleanupOldLogs :: "(int \<Rightarrow> string) \<Rightarrow> int \<Rightarrow> LogStore \<Rightarrow> error + (int \<times> LogStore)" where
  "cleanupOldLogs cutoff_iso retentionDays s =
     (case db s of
        None \<Rightarrow> Inr (0, s)
      | Some d \<Rightarrow>
          (case actions_tbl d of
             None \<Rightarrow> Inl NoSuchTable
           | Some rows \<Rightarrow>
               (let cutoffStr = cutoff_iso retentionDays;
                    deleted = filter (\<lambda>r. timestamp r < cutoffStr) rows;
                    kept = filter (\<lambda>r. \<not> timestamp r < cutoffStr) rows
                in Inr (int (length deleted), s\<lparr>db := Some (d\<lparr>actions_tbl := Some kept\<rparr>)\<rparr>))))"

text \<open>The rows the store holds (none before \<open>initialize\<close>).\<close>

definition stored_actions :: "LogStore \<Rightarrow> action list" where
  "stored_actions s =
     (case db s of None \<Rightarrow> [] | Some d \<Rightarrow> (case actions_tbl d of None \<Rightarrow> [] | Some rows \<Rightarrow> rows))"

text \<open>
  A process lifetime: one store object, and the calls made on it in order. A call that
  throws leaves the store as it was. The other methods of the class (\<open>getSessionStats\<close>,
  \<open>getRecentActions\<close>, \<open>getActionsByTimeRange\<close>, \<open>getDbPath\<close>) only read.
\<close>

datatype call = Initialize "database option" | LogAction string LogEntry | CleanupOldLogs "int \<Rightarrow> string" int

fun perform :: "LogStore \<Rightarrow> call \<Rightarrow> LogStore" where
  "perform s (Initialize disk) = initialize disk s"
| "perform s (LogAction sql_now entry) =
     (case logAction sql_now entry s of Inl e \<Rightarrow> s | Inr (i, s') \<Rightarrow> s')"
| "perform s (CleanupOldLogs cutoff_iso n) =
     (case cleanupOldLogs cutoff_iso n s of Inl e \<Rightarrow> s | Inr (k, s') \<Rightarrow> s')"

definition lifetime :: "string \<Rightarrow> call list \<Rightarrow> LogStore" where
  "lifetime now_iso calls = foldl perform (constructor now_iso) calls"

section \<open>The API server: request parameters\<close>

text \<open>
  \<open>res.json(x)\<close> answers with status 200, \<open>res.status(500).json({error: e})\<close> with
  status 500.
\<close>

datatype 'a response = Json 'a | Failure string

fun status :: "'a response \<Rightarrow> nat" where
  "status (Json x) = 200"
| "status (Failure e) = 500"

text \<open>
  A JavaScript number as the handlers meet it: \<open>NaN\<close> or an integer. (Integers are exact
  here; JavaScript rounds those beyond \<open>2^53\<close> to the nearest double.)
\<close>

datatype jsnum = NaN | Num int

text \<open>
  \<open>parseInt(string)\<close> without a radix, after ECMAScript: leading white space is dropped,
  then a sign, then the prefix \<open>0x\<close> or \<open>0X\<close> (radix 16, otherwise 10); the longest run
  of digits of that radix is the number, and \<open>NaN\<close> when the run is empty. A character
  of a \<open>string\<close> is a code unit below 256, so the white space is TAB, LF, VT, FF, CR,
  SP and NBSP.
\<close>

definition is_whitespace :: "char \<Rightarrow> bool" where
  "is_whitespace c = ((of_char c :: nat) \<in> {9, 10, 11, 12, 13, 32, 160})"

definition digit_value :: "char \<Rightarrow> nat" where
  "digit_value c =
     (let n = (of_char c :: nat) in
      if 48 \<le> n \<and> n \<le> 57 then n - 48
      else if 97 \<le> n \<and> n \<le> 122 then n - 87
      else if 65 \<le> n \<and> n \<le> 90 then n - 55
      else 36)"

definition is_digit :: "nat \<Rightarrow> char \<Rightarrow> bool" where
  "is_digit R c = (digit_value c < R)"

definition parseInt :: "string \<Rightarrow> jsnum" where
  "parseInt inputString =
     (let S = dropWhile is_whitespace inputString;
          sign = (if take 1 S = ''-'' then - 1 else 1 :: int);
          S1 = (if take 1 S = ''+'' \<or> take 1 S = ''-'' then drop 1 S else S);
          hex = (take 2 S1 = ''0x'' \<or> take 2 S1 = ''0X'');
          R = (if hex then 16 else 10 :: nat);
          S2 = (if hex then drop 2 S1 else S1);
          Z = takeWhile (is_digit R) S2
      in if Z = [] then NaN
         else Num (sign * int (foldl (\<lambda>a c. a * R + digit_value c) 0 Z)))"

text \<open>
  A query parameter is absent (\<open>undefined\<close>) or a string; the handlers cast it with
  \<open>as string\<close>. \<open>parseInt(undefined)\<close> reads the string \<open>undefined\<close>.
\<close>

definition parseInt_param :: "string option \<Rightarrow> jsnum" where
  "parseInt_param p = parseInt (case p of None \<Rightarrow> ''undefined'' | Some s \<Rightarrow> s)"

text \<open>\<open>x || d\<close> on a number: \<open>NaN\<close> and 0 are falsy.\<close>

definition or_default :: "jsnum \<Rightarrow> int \<Rightarrow> int" where
  "or_default x d = (case x of NaN \<Rightarrow> d | Num n \<Rightarrow> if n = 0 then d else n)"

text \<open>A string in a condition: \<open>undefined\<close> and the empty string are falsy.\<close>

definition truthy :: "string option \<Rightarrow> bool" where
  "truthy p = (case p of None \<Rightarrow> False | Some s \<Rightarrow> s \<noteq> [])"

record query =
  q_limit :: "string option"
  q_offset :: "string option"
  q_verdict :: "string option"
  q_tier :: "string option"
  q_search :: "string option"
  q_since :: "string option"
  q_days :: "string option"

section \<open>GET /api/logs\<close>

text \<open>
  SQLite's \<open>LIKE\<close> without \<open>ESCAPE\<close>: in the pattern \<open>%\<close> stands for any run of
  characters and \<open>_\<close> for any one character; other characters match themselves, the
  ASCII letters without regard to case (\<open>lower\<close> is the code of the folded character).
\<close>

definition lower :: "char \<Rightarrow> nat" where
  "lower c = (let n = (of_char c :: nat) in if 65 \<le> n \<and> n \<le> 90 then n + 32 else n)"

fun like :: "string \<Rightarrow> string \<Rightarrow> bool" where
  "like [] [] = True"
| "like [] (c # cs) = False"
| "like (p # ps) [] = (p = CHR ''%'' \<and> like ps [])"
| "like (p # ps) (c # cs) =
     (if p = CHR ''%'' then like ps (c # cs) \<or> like (p # ps) cs
      else (p = CHR ''_'' \<or> lower p = lower c) \<and> like ps cs)"

text \<open>
  The entries of \<open>conditions\<close>, each with the parameters pushed for it. \<open>SearchLike\<close> is
  \<open>(action_type LIKE ? OR target LIKE ? OR description LIKE ?)\<close> with the same pattern
  three times.
\<close>

datatype condition = VerdictEq string | TierEq jsnum | SearchLike string | TimestampGe string

definition tier_param :: "query \<Rightarrow> jsnum option" where
  "tier_param q = (if truthy (q_tier q) then Some (parseInt_param (q_tier q)) else None)"

definition conditions :: "query \<Rightarrow> condition list" where
  "conditions q =
     (if truthy (q_verdict q) \<and> q_verdict q \<noteq> Some ''all'' then [VerdictEq (the (q_verdict q))] else []) @
     (case tier_param q of None \<Rightarrow> [] | Some t \<Rightarrow> [TierEq t]) @
     (if truthy (q_search q) then [SearchLike (''%'' @ the (q_search q) @ ''%'')] else []) @
     (if truthy (q_since q) then [TimestampGe (the (q_since q))] else [])"

text \<open>
  A condition on a row. better-sqlite3 binds \<open>NaN\<close> as NULL, and \<open>tier = NULL\<close> is true
  of no row.
\<close>

fun holds :: "condition \<Rightarrow> action \<Rightarrow> bool" where
  "holds (VerdictEq v) r = (verdict r = v)"
| "holds (TierEq NaN) r = False"
| "holds (TierEq (Num n)) r = (tier r = n)"
| "holds (SearchLike pat) r =
     (like pat (action_type r) \<or> like pat (target r) \<or> like pat (description r))"
| "holds (TimestampGe since) r = (since \<le> timestamp r)"

text \<open>\<open>WHERE c1 AND ... AND cn\<close>, and no clause at all for the empty list.\<close>

definition where_clause :: "condition list \<Rightarrow> action \<Rightarrow> bool" where
  "where_clause conds r = list_all (\<lambda>c. holds c r) conds"

text \<open>\<open>LIMIT ? OFFSET ?\<close>: a negative limit is no limit, a negative offset is 0.\<close>

definition limit_offset :: "int \<Rightarrow> int \<Rightarrow> 'a list \<Rightarrow> 'a list" where
  "limit_offset limit offset xs =
     (let ys = drop (nat offset) xs in if limit < 0 then ys else take (nat limit) ys)"

record logs_body =
  actions :: "action list"
  total :: int

text \<open>
  The handler. \<open>order_by\<close> is what the engine makes of \<open>ORDER BY timestamp DESC\<close> for
  this statement; the statement names no second sort key.
\<close>

definition get_logs :: "(action list \<Rightarrow> action list) \<Rightarrow> database option \<Rightarrow> query \<Rightarrow> logs_body response" where
  "get_logs order_by file q =
     (case file of
        None \<Rightarrow> Json \<lparr>actions = [], total = 0\<rparr>
      | Some d \<Rightarrow>
          (let limit = or_default (parseInt_param (q_limit q)) 50;
               offset = or_default (parseInt_param (q_offset q)) 0;
               conds = conditions q
           in case actions_tbl d of
                None \<Rightarrow> Failure ''Failed to query logs''
              | Some rows \<Rightarrow>
                  Json \<lparr>actions = limit_offset limit offset (order_by (filter (where_clause conds) rows)),
                        total = int (length (filter (where_clause conds) rows))\<rparr>))"



section \<open>GET /api/logs/stats\<close>

record tier_counts =
  t1 :: int
  t2 :: int
  t3 :: int

record stats_body =
  totalActions :: int
  sessionActions :: int
  verifiedCount :: int
  unverifiedCount :: int
  blockedCount :: int
  unverifiedTier1Count :: int
  tierBreakdown :: tier_counts
  dailySpend :: real

text \<open>\<open>SELECT COUNT(*) FROM actions WHERE ...\<close>\<close>

definition count_rows :: "('a \<Rightarrow> bool) \<Rightarrow> 'a list \<Rightarrow> int" where
  "count_rows P rows = int (length (filter P rows))"

text \<open>
  The handler. \<open>sql_date\<close> is SQLite's \<open>date()\<close> (NULL, here \<open>None\<close>, for a text that is no
  time value) and \<open>today\<close> is \<open>date('now')\<close>. The sum of the REAL column is exact here.
\<close>

definition get_stats :: "(string \<Rightarrow> string option) \<Rightarrow> string \<Rightarrow> database option \<Rightarrow> stats_body response" where
  "get_stats sql_date today file =
     (case file of
        None \<Rightarrow>
          Json \<lparr>totalActions = 0, sessionActions = 0, verifiedCount = 0, unverifiedCount = 0,
                blockedCount = 0, unverifiedTier1Count = 0,
                tierBreakdown = \<lparr>t1 = 0, t2 = 0, t3 = 0\<rparr>, dailySpend = 0\<rparr>
      | Some d \<Rightarrow>
          (case actions_tbl d of
             None \<Rightarrow> Failure ''Failed to query stats''
           | Some rows \<Rightarrow>
               (let total_actions = count_rows (\<lambda>r. True) rows;
                    verified_count = count_rows (\<lambda>r. key_was_valid r = 1) rows;
                    blocked_count = count_rows (\<lambda>r. verdict r = ''block'') rows;
                    unverified_tier1_count = count_rows (\<lambda>r. key_was_valid r = 0 \<and> tier r = 1) rows;
                    c1 = count_rows (\<lambda>r. tier r = 1) rows;
                    c2 = count_rows (\<lambda>r. tier r = 2) rows;
                    c3 = count_rows (\<lambda>r. tier r = 3) rows;
                    daily_spend = foldl (+) 0 (map amount (filter (\<lambda>r. sql_date (timestamp r) = Some today) rows))
                in Json \<lparr>totalActions = total_actions, sessionActions = total_actions,
                         verifiedCount = verified_count,
                         unverifiedCount = total_actions - verified_count,
                         blockedCount = blocked_count,
                         unverifiedTier1Count = unverified_tier1_count,
                         tierBreakdown = \<lparr>t1 = c1, t2 = c2, t3 = c3\<rparr>,
                         dailySpend = daily_spend\<rparr>)))"

section \<open>GET /api/reviews\<close>

text \<open>A row with \<open>highlights\<close> and \<open>insights\<close> replaced by what \<open>JSON.parse\<close> makes of them.\<close>

record 'j decoded_review =
  row :: review
  highlights_json :: 'j
  insights_json :: 'j

record 'j reviews_body =
  reviews :: "'j decoded_review list"
  reviews_total :: int

text \<open>\<open>JSON_parse\<close> is \<open>JSON.parse\<close>, \<open>None\<close> where it throws.\<close>

definition decode :: "(string \<Rightarrow> 'j option) \<Rightarrow> review \<Rightarrow> 'j decoded_review option" where
  "decode JSON_parse r =
     (case JSON_parse (highlights r) of
        None \<Rightarrow> None
      | Some h \<Rightarrow>
          (case JSON_parse (insights r) of
             None \<Rightarrow> None
           | Some i \<Rightarrow> Some \<lparr>row = r, highlights_json = h, insights_json = i\<rparr>))"

text \<open>
  The handler. A missing table \<open>reviews\<close> throws \<open>no such table\<close>, which the handler
  catches and answers with the empty page; a \<open>JSON.parse\<close> that throws is answered with 500.
\<close>

definition get_reviews :: "(string \<Rightarrow> 'j option) \<Rightarrow> (review list \<Rightarrow> review list) \<Rightarrow> database option \<Rightarrow> query \<Rightarrow> 'j reviews_body response" where
  "get_reviews JSON_parse order_by file q =
     (case file of
        None \<Rightarrow> Json \<lparr>reviews = [], reviews_total = 0\<rparr>
      | Some d \<Rightarrow>
          (let limit = or_default (parseInt_param (q_limit q)) 20;
               offset = or_default (parseInt_param (q_offset q)) 0
           in case reviews_tbl d of
                None \<Rightarrow> Json \<lparr>reviews = [], reviews_total = 0\<rparr>
              | Some tbl \<Rightarrow>
                  (case those (map (decode JSON_parse) (limit_offset limit offset (order_by tbl))) of
                     None \<Rightarrow> Failure ''Failed to query reviews''
                   | Some rs \<Rightarrow> Json \<lparr>reviews = rs, reviews_total = int (length tbl)\<rparr>)))"

section \<open>GET /api/reviews/trends\<close>

record day_score =
  date :: string
  overall :: real
  alignment :: real
  security :: real

record averages_body =
  avg_overall :: real
  avg_alignment :: real
  avg_security :: real

record day_ref =
  day :: string
  score :: real

record trends_body =
  daily_scores :: "day_score list"
  averages :: averages_body
  trend_direction :: string
  best_day :: "day_ref option"
  worst_day :: "day_ref option"

definition empty_trends :: trends_body where
  "empty_trends =
     \<lparr>daily_scores = [],
      averages = \<lparr>avg_overall = 0, avg_alignment = 0, avg_security = 0\<rparr>,
      trend_direction = ''stable'', best_day = None, worst_day = None\<rparr>"

text \<open>
  The clock of one request: \<open>cutoff_of days\<close> is \<open>cutoff.toISOString()\<close> for the current
  time moved back by \<open>days\<close> days; \<open>sevenDaysAgo\<close> and \<open>fourteenDaysAgo\<close> are the time
  values (milliseconds) of the two dates of that name.
\<close>

record clock =
  cutoff_of :: "int \<Rightarrow> string"
  sevenDaysAgo :: int
  fourteenDaysAgo :: int

text \<open>
  \<open>byDate\<close>: the dates in the order in which they were first met, each with its three
  arrays. An object lists its string keys in insertion order; a date of the extended ISO
  format, \<open>YYYY-MM-DD\<close>, is such a key (it is neither an array index, which would be
  listed first, nor the name of a property that every object inherits).
\<close>

type_synonym scores = "real list \<times> real list \<times> real list"

fun byDate_push :: "(string \<times> scores) list \<Rightarrow> string \<Rightarrow> real \<times> real \<times> real \<Rightarrow> (string \<times> scores) list" where
  "byDate_push [] dt (ov, al, se) = [(dt, ([ov], [al], [se]))]"
| "byDate_push ((k, (ovs, als, ses)) # rest) dt (ov, al, se) =
     (if k = dt then (k, (ovs @ [ov], als @ [al], ses @ [se])) # rest
      else (k, (ovs, als, ses)) # byDate_push rest dt (ov, al, se))"

text \<open>\<open>row.timestamp.split('T')[0]\<close>\<close>

definition date_of :: "string \<Rightarrow> string" where
  "date_of ts = takeWhile (\<lambda>c. c \<noteq> CHR ''T'') ts"

definition group_by_date :: "review list \<Rightarrow> (string \<times> scores) list" where
  "group_by_date rows =
     foldl (\<lambda>byDate r. byDate_push byDate (date_of (review_timestamp r))
                          (overall_score r, goal_alignment_score r, security_compliance_score r))
           [] rows"

text \<open>Numbers are exact reals here; the source computes with doubles.\<close>

definition avg :: "real list \<Rightarrow> real" where
  "avg arr = (if length arr > 0 then foldl (+) 0 arr / real (length arr) else 0)"

text \<open>\<open>Math.round(x * 100) / 100\<close>; \<open>Math.round\<close> rounds a half upwards.\<close>

definition round2 :: "real \<Rightarrow> real" where
  "round2 x = real_of_int \<lfloor>x * 100 + 1 / 2\<rfloor> / 100"

definition daily_of :: "string \<times> scores \<Rightarrow> day_score" where
  "daily_of e =
     (case e of (dt, (ovs, als, ses)) \<Rightarrow>
        \<lparr>date = dt, overall = round2 (avg ovs), alignment = round2 (avg als),
         security = round2 (avg ses)\<rparr>)"

text \<open>
  \<open>new Date(r.timestamp)\<close> against a date: \<open>Date_ms\<close> gives the time value of the parsed
  text, \<open>None\<close> for an invalid date, which compares false with everything.
\<close>

definition is_recent :: "(string \<Rightarrow> int option) \<Rightarrow> clock \<Rightarrow> review \<Rightarrow> bool" where
  "is_recent Date_ms clk r =
     (case Date_ms (review_timestamp r) of None \<Rightarrow> False | Some t \<Rightarrow> sevenDaysAgo clk \<le> t)"

definition is_previous :: "(string \<Rightarrow> int option) \<Rightarrow> clock \<Rightarrow> review \<Rightarrow> bool" where
  "is_previous Date_ms clk r =
     (case Date_ms (review_timestamp r) of
        None \<Rightarrow> False
      | Some t \<Rightarrow> fourteenDaysAgo clk \<le> t \<and> t < sevenDaysAgo clk)"

definition trend :: "real list \<Rightarrow> real list \<Rightarrow> string" where
  "trend recentScores previousScores =
     (let recentAvg = avg recentScores;
          previousAvg = avg previousScores;
          diff = recentAvg - previousAvg
      in if length previousScores = 0 \<or> length recentScores = 0 then ''stable''
         else if diff > 5 then ''improving''
         else if diff < - 5 then ''declining''
         else ''stable'')"

text \<open>One round of the loop over \<open>daily_scores\<close>, on the pair \<open>(best_day, worst_day)\<close>.\<close>

fun track :: "day_ref option \<times> day_ref option \<Rightarrow> day_score \<Rightarrow> day_ref option \<times> day_ref option" where
  "track (best, worst) entry =
     ((case best of
         None \<Rightarrow> Some \<lparr>day = date entry, score = overall entry\<rparr>
       | Some b \<Rightarrow> if overall entry > score b then Some \<lparr>day = date entry, score = overall entry\<rparr>
                   else Some b),
      (case worst of
         None \<Rightarrow> Some \<lparr>day = date entry, score = overall entry\<rparr>
       | Some w \<Rightarrow> if overall entry < score w then Some \<lparr>day = date entry, score = overall entry\<rparr>
                   else Some w))"

definition best_worst :: "day_score list \<Rightarrow> day_ref option \<times> day_ref option" where
  "best_worst ds = foldl track (None, None) ds"

text \<open>
  The handler. \<open>order_by\<close> is what the engine makes of \<open>ORDER BY timestamp ASC\<close>. A missing
  table \<open>reviews\<close> is caught and answered with the empty summary.
\<close>

definition get_trends :: "(string \<Rightarrow> int option) \<Rightarrow> clock \<Rightarrow> (review list \<Rightarrow> review list) \<Rightarrow> database option \<Rightarrow> query \<Rightarrow> trends_body response" where
  "get_trends Date_ms clk order_by file q =
     (case file of
        None \<Rightarrow> Json empty_trends
      | Some d \<Rightarrow>
          (let days = or_default (parseInt_param (q_days q)) 30;
               cutoffStr = cutoff_of clk days
           in case reviews_tbl d of
                None \<Rightarrow> Json empty_trends
              | Some tbl \<Rightarrow>
                  (let rows = order_by (filter (\<lambda>r. cutoffStr \<le> review_timestamp r) tbl);
                       ds = map daily_of (group_by_date rows);
                       recentScores = map overall_score (filter (is_recent Date_ms clk) rows);
                       previousScores = map overall_score (filter (is_previous Date_ms clk) rows)
                   in Json \<lparr>daily_scores = ds,
                            averages = \<lparr>avg_overall = round2 (avg (map overall_score rows)),
                                        avg_alignment = round2 (avg (map goal_alignment_score rows)),
                                        avg_security = round2 (avg (map security_compliance_score rows))\<rparr>,
                            trend_direction = trend recentScores previousScores,
                            best_day = fst (best_worst ds),
                            worst_day = snd (best_worst ds)\<rparr>)))"

section \<open>Auxiliary notions for the properties\<close>

text \<open>The rows of \<open>actions\<close> that the calls to \<open>initialize\<close> found in the file.\<close>

fun found_on_disk :: "call list \<Rightarrow> action list" where
  "found_on_disk [] = []"
| "found_on_disk (Initialize disk # calls) =
     (case disk of
        None \<Rightarrow> []
      | Some d \<Rightarrow> (case actions_tbl d of None \<Rightarrow> [] | Some rows \<Rightarrow> rows))
     @ found_on_disk calls"
| "found_on_disk (c # calls) = found_on_disk calls"

text \<open>
  The text that \<open>Date.prototype.toISOString\<close> writes for a time in UTC with a year of
  four digits, \<open>YYYY-MM-DDTHH:mm:ss.sssZ\<close>: every field in decimal, padded with zeros to
  its width. \<open>fields\<close> lists the fields from the year down to the milliseconds; one time
  is before another when its list is the smaller one in the lexicographic order.
\<close>

fun pad :: "nat \<Rightarrow> nat \<Rightarrow> string" where
  "pad 0 x = []"
| "pad (Suc n) x = char_of (48 + x div 10 ^ n) # pad n (x mod 10 ^ n)"





section \<open>Example data\<close>

definition entry :: "string \<Rightarrow> string \<Rightarrow> bool \<Rightarrow> int \<Rightarrow> LogEntry" where
  "entry ts v valid t =
     \<lparr>e_timestamp = ts, e_action_type = ''send_email'', e_target = ''bob@example.com'',
      e_amount = 0, e_description = ''weekly report'', e_verdict = v, e_reason = '''',
      e_key_was_valid = valid, e_tier = Some t\<rparr>"

definition start0 :: string where
  "start0 = ''2024-05-01T10:00:00.000Z''"

definition cutoff0 :: "int \<Rightarrow> string" where
  "cutoff0 n = (if n = 30 then ''2024-04-01T10:00:00.000Z'' else ''2024-05-01T10:00:00.000Z'')"



text \<open>Three events: one older than the cutoff of 30 days, one at it, one newer.\<close>

definition calls0 :: "call list" where
  "calls0 =
     [Initialize None,
      LogAction ''2024-05-01 10:00:01'' (entry ''2024-03-31T23:59:59.999Z'' ''pass'' True 2),
      LogAction ''2024-05-01 10:00:02'' (entry ''2024-04-01T10:00:00.000Z'' ''block'' False 1),
      LogAction ''2024-05-01 10:00:03'' (entry ''2024-04-20T08:00:00.000Z'' ''pass'' True 1)]"

text \<open>The five events of the specification's example for the statistics.\<close>

definition stats_calls :: "call list" where
  "stats_calls =
     [Initialize None,
      LogAction ''2024-05-01 10:00:01'' (entry ''2024-05-01T10:00:01.000Z'' ''pass'' False 1),
      LogAction ''2024-05-01 10:00:02'' (entry ''2024-05-01T10:00:02.000Z'' ''pass'' True 1),
      LogAction ''2024-05-01 10:00:03'' (entry ''2024-05-01T10:00:03.000Z'' ''block'' True 2),
      LogAction ''2024-05-01 10:00:04'' (entry ''2024-05-01T10:00:04.000Z'' ''warn'' True 3),
      LogAction ''2024-05-01 10:00:05'' (entry ''2024-05-01T10:00:05.000Z'' ''pass'' False 1)]"

text \<open>A request without parameters.\<close>

definition query0 :: query where
  "query0 = \<lparr>q_limit = None, q_offset = None, q_verdict = None, q_tier = None,
             q_search = None, q_since = None, q_days = None\<rparr>"

section \<open>Notions of the specification for the query engine\<close>

text \<open>The limit and the offset a request is served with.\<close>

definition logs_limit :: "query \<Rightarrow> int" where
  "logs_limit q = or_default (parseInt_param (q_limit q)) 50"

definition logs_offset :: "query \<Rightarrow> int" where
  "logs_offset q = or_default (parseInt_param (q_offset q)) 0"

text \<open>The rows a request selects, in the order of the table.\<close>

definition matching :: "query \<Rightarrow> action list \<Rightarrow> action list" where
  "matching q rows = filter (where_clause (conditions q)) rows"

text \<open>
  The filters one by one, after section 4.2 of the specification. A parameter that is
  absent or empty is not supplied and constrains nothing, and neither does the verdict
  \<open>all\<close>. The verdict and the tier are exact matches, \<open>since\<close> is an inclusive lower
  bound in the lexicographic order, and \<open>search_hit\<close> is the search of the three text
  columns.
\<close>

definition search_hit :: "string \<Rightarrow> action \<Rightarrow> bool" where
  "search_hit s r =
     (like (''%'' @ s @ ''%'') (action_type r) \<or> like (''%'' @ s @ ''%'') (target r) \<or>
      like (''%'' @ s @ ''%'') (description r))"






text \<open>
  Two engines for \<open>ORDER BY timestamp DESC\<close>: a stable sort of the rows as they are
  scanned, and the reverse of a stable ascending sort.
\<close>

definition sort_desc_stable :: "action list \<Rightarrow> action list" where
  "sort_desc_stable rows = rev (sort_key timestamp (rev rows))"


text \<open>
  The search of the specification: \<open>contains_ci s t\<close> says that \<open>s\<close> occurs in \<open>t\<close> as a
  substring when case is ignored, and \<open>substring_hit\<close> that it does so in one of the three
  text columns.
\<close>

definition contains_ci :: "string \<Rightarrow> string \<Rightarrow> bool" where
  "contains_ci s t =
     list_ex (\<lambda>i. map lower (take (length s) (drop i t)) = map lower s) [0..<Suc (length t)]"

definition substring_hit :: "string \<Rightarrow> action \<Rightarrow> bool" where
  "substring_hit s r =
     (contains_ci s (action_type r) \<or> contains_ci s (target r) \<or> contains_ci s (description r))"

definition wildcard_free :: "string \<Rightarrow> bool" where
  "wildcard_free s = list_all (\<lambda>c. c \<noteq> CHR ''%'' \<and> c \<noteq> CHR ''_'') s"


section \<open>Notions of the specification for the trend analyzer\<close>











section \<open>Properties of LogStore\<close>

lemma sessionStart_perform: "sessionStart (perform s c) = sessionStart s"
  by (cases c)
    (auto simp: initialize_def logAction_def cleanupOldLogs_def Let_def
          split: option.splits sum.splits)

lemma sessionStart_foldl: "sessionStart (foldl perform s calls) = sessionStart s"
  by (induction calls arbitrary: s) (simp_all add: sessionStart_perform)

lemma perform_rows:
  "r \<in> set (stored_actions (perform s c)) \<Longrightarrow>
     r \<in> set (stored_actions s) \<or> session_id r = sessionStart s \<or> r \<in> set (found_on_disk [c])"
  by (cases c)
    (auto simp: stored_actions_def initialize_def logAction_def cleanupOldLogs_def Let_def
          split: option.splits sum.splits)

lemma found_on_disk_Cons:
  "set (found_on_disk (c # calls)) = set (found_on_disk [c]) \<union> set (found_on_disk calls)"
  by (cases c) auto

lemma foldl_perform_rows:
  "r \<in> set (stored_actions (foldl perform s calls)) \<Longrightarrow>
     r \<in> set (stored_actions s) \<or> session_id r = sessionStart s \<or> r \<in> set (found_on_disk calls)"
proof (induction calls arbitrary: s)
  case Nil
  then show ?case by simp
next
  case (Cons c calls)
  from Cons.prems have "r \<in> set (stored_actions (foldl perform (perform s c) calls))"
    by simp
  from Cons.IH [OF this]
  have "r \<in> set (stored_actions (perform s c)) \<or> session_id r = sessionStart s
      \<or> r \<in> set (found_on_disk calls)"
    by (simp add: sessionStart_perform)
  then show ?case
    using perform_rows [of r s c] by (auto simp: found_on_disk_Cons [of c calls])
qed

lemma logAction_appends:
  "logAction sql_now e s = Inr (i, s') \<Longrightarrow>
     \<exists>new. stored_actions s' = stored_actions s @ [new] \<and> session_id new = sessionStart s \<and>
       timestamp new = e_timestamp e \<and> action_id new = i \<and> sessionStart s' = sessionStart s"
  by (auto simp: logAction_def stored_actions_def Let_def split: option.splits)

text \<open>
  C10. Whatever calls were made on a store constructed at \<open>now_iso\<close>: its \<open>sessionStart\<close>
  is still \<open>now_iso\<close>; a \<open>logAction\<close> that returns appends exactly one row, whose
  \<open>session_id\<close> is \<open>now_iso\<close> while its \<open>timestamp\<close> is the entry's own (a \<open>LogEntry\<close> has
  no field for a session id); and every row of the table that no \<open>initialize\<close> found in
  the file carries the session id \<open>now_iso\<close>.
\<close>

theorem logAction_session_id:
  "sessionStart (lifetime now_iso calls) = now_iso \<and>
   (\<forall>sql_now e i s'. logAction sql_now e (lifetime now_iso calls) = Inr (i, s') \<longrightarrow>
      (\<exists>new. stored_actions s' = stored_actions (lifetime now_iso calls) @ [new] \<and>
         session_id new = now_iso \<and> timestamp new = e_timestamp e \<and> action_id new = i \<and>
         sessionStart s' = now_iso)) \<and>
   (\<forall>r \<in> set (stored_actions (lifetime now_iso calls)).
      session_id r = now_iso \<or> r \<in> set (found_on_disk calls))"
proof -
  have start: "sessionStart (lifetime now_iso calls) = now_iso"
    by (simp add: lifetime_def sessionStart_foldl constructor_def)
  have rows: "session_id r = now_iso \<or> r \<in> set (found_on_disk calls)"
    if "r \<in> set (stored_actions (lifetime now_iso calls))" for r
    using foldl_perform_rows [of r "constructor now_iso" calls] that
    by (auto simp: lifetime_def constructor_def stored_actions_def)
  show ?thesis
    using start rows logAction_appends [where s = "lifetime now_iso calls"] by fastforce
qed

theorem logAction_session_id_witness:
  "map session_id (stored_actions (lifetime start0 calls0)) = [start0, start0, start0] \<and>
   map timestamp (stored_actions (lifetime start0 calls0)) =
     [''2024-03-31T23:59:59.999Z'', ''2024-04-01T10:00:00.000Z'', ''2024-04-20T08:00:00.000Z''] \<and>
   found_on_disk calls0 = [] \<and>
   (\<exists>s'. logAction ''2024-05-01 10:00:04'' (entry ''1999-12-31T23:59:59.000Z'' ''warn'' False 3)
            (lifetime start0 calls0) = Inr (4, s') \<and>
         map session_id (stored_actions s') = [start0, start0, start0, start0] \<and>
         timestamp (last (stored_actions s')) = ''1999-12-31T23:59:59.000Z'')"
proof -
  let ?s = "lifetime start0 calls0"
  let ?e = "entry ''1999-12-31T23:59:59.000Z'' ''warn'' False 3"
  have rows: "map timestamp (stored_actions ?s) =
     [''2024-03-31T23:59:59.999Z'', ''2024-04-01T10:00:00.000Z'', ''2024-04-20T08:00:00.000Z'']"
    by (simp add: lifetime_def calls0_def constructor_def initialize_def logAction_def
        next_id_def entry_def Let_def stored_actions_def)
  have disk: "found_on_disk calls0 = []"
    by (simp add: calls0_def)
  obtain s' where call: "logAction ''2024-05-01 10:00:04'' ?e ?s = Inr (4, s')"
    by (simp add: lifetime_def calls0_def constructor_def initialize_def logAction_def
        next_id_def entry_def Let_def)
  from logAction_session_id [of start0 calls0] call
  obtain new where new: "stored_actions s' = stored_actions ?s @ [new]" "session_id new = start0"
      "timestamp new = e_timestamp ?e"
    by blast
  from logAction_session_id [of start0 calls0] disk
  have ids: "\<forall>r \<in> set (stored_actions ?s). session_id r = start0"
    by simp
  from rows have len: "length (stored_actions ?s) = 3"
    by (metis length_map length_Cons list.size(3) numeral_3_eq_3)
  from ids len have "map session_id (stored_actions ?s) = [start0, start0, start0]"
    by (auto simp: length_Suc_conv numeral_3_eq_3)
  with rows disk call new show ?thesis
    by (simp add: entry_def)
qed

subsection \<open>The text order of ISO timestamps\<close>

text \<open>
  Two texts written by \<open>toISOString\<close> compare as the times they stand for: the text order
  that SQLite applies to the column \<open>timestamp\<close> is the order of time.
\<close>

lemma length_pad [simp]: "length (pad n x) = n"
  by (induction n arbitrary: x) simp_all








subsection \<open>Retention\<close>

lemma cleanupOldLogs_uninitialized:
  "db s = None \<Longrightarrow> cleanupOldLogs cutoff_iso n s = Inr (0, s)"
  by (simp add: cleanupOldLogs_def)



section \<open>Properties of the API server\<close>

text \<open>
  C7. When the store file does not exist, each of the four read endpoints answers with
  status 200 and its empty state: no actions and total 0; statistics that are all zero;
  no reviews and total 0; the trend summary without daily scores, with zero averages,
  direction \<open>stable\<close> and neither a best nor a worst day. This holds for every request.
\<close>

theorem missing_file_empty_state:
  "get_logs order_by None q = Json \<lparr>actions = [], total = 0\<rparr> \<and>
   get_stats sql_date today None =
     Json \<lparr>totalActions = 0, sessionActions = 0, verifiedCount = 0, unverifiedCount = 0,
           blockedCount = 0, unverifiedTier1Count = 0,
           tierBreakdown = \<lparr>t1 = 0, t2 = 0, t3 = 0\<rparr>, dailySpend = 0\<rparr> \<and>
   get_reviews JSON_parse order_by' None q = Json \<lparr>reviews = [], reviews_total = 0\<rparr> \<and>
   get_trends Date_ms clk order_by' None q =
     Json \<lparr>daily_scores = [],
           averages = \<lparr>avg_overall = 0, avg_alignment = 0, avg_security = 0\<rparr>,
           trend_direction = ''stable'', best_day = None, worst_day = None\<rparr> \<and>
   status (get_logs order_by None q) = 200 \<and>
   status (get_stats sql_date today None) = 200 \<and>
   status (get_reviews JSON_parse order_by' None q) = 200 \<and>
   status (get_trends Date_ms clk order_by' None q) = 200"
  by (simp add: get_logs_def get_stats_def get_reviews_def get_trends_def empty_trends_def)

theorem missing_file_empty_state_witness:
  "status (get_logs rev None query0) = 200 \<and>
   get_logs rev None query0 = Json \<lparr>actions = [], total = 0\<rparr> \<and>
   get_reviews (\<lambda>s. Some s) id None query0 = Json \<lparr>reviews = [], reviews_total = 0\<rparr> \<and>
   get_trends (\<lambda>s. None) \<lparr>cutoff_of = cutoff0, sevenDaysAgo = 7, fourteenDaysAgo = 0\<rparr> id None query0
     = Json empty_trends"
  using missing_file_empty_state [of rev query0 "\<lambda>ts. Some (take 10 ts)" "''2024-05-01''"
      "\<lambda>s. Some s" id "\<lambda>s. None" "\<lparr>cutoff_of = cutoff0, sevenDaysAgo = 7, fourteenDaysAgo = 0\<rparr>"]
  by (simp add: empty_trends_def)

lemma size_filter_mset_length: "int (size {#r \<in># mset rows. P r#}) = count_rows P rows"
  by (simp add: count_rows_def flip: mset_filter)

text \<open>
  C3. When the table of actions exists, the statistics endpoint answers with status 200
  and: \<open>totalActions\<close> (and \<open>sessionActions\<close>) the number of rows; \<open>verifiedCount\<close> the
  number of rows whose \<open>key_was_valid\<close> is 1 (true, as \<open>logAction\<close> writes it);
  \<open>unverifiedCount\<close> the total minus the verified, which is the number of the other rows;
  \<open>blockedCount\<close> the number of rows with verdict \<open>block\<close>; \<open>unverifiedTier1Count\<close> the
  number of rows with \<open>key_was_valid\<close> 0 and tier 1; and \<open>t1\<close>, \<open>t2\<close>, \<open>t3\<close> the numbers of
  rows of tier 1, 2 and 3, so that rows of any other tier (0 among them) are in none of
  the three. All counts depend on the rows as a multiset only.
\<close>

theorem get_stats_counts:
  assumes "actions_tbl d = Some rows"
  shows "\<exists>b. get_stats sql_date today (Some d) = Json b \<and>
     totalActions b = int (size (mset rows)) \<and>
     sessionActions b = totalActions b \<and>
     verifiedCount b = int (size {#r \<in># mset rows. key_was_valid r = 1#}) \<and>
     unverifiedCount b = totalActions b - verifiedCount b \<and>
     unverifiedCount b = int (size {#r \<in># mset rows. key_was_valid r \<noteq> 1#}) \<and>
     blockedCount b = int (size {#r \<in># mset rows. verdict r = ''block''#}) \<and>
     unverifiedTier1Count b = int (size {#r \<in># mset rows. key_was_valid r = 0 \<and> tier r = 1#}) \<and>
     t1 (tierBreakdown b) = int (size {#r \<in># mset rows. tier r = 1#}) \<and>
     t2 (tierBreakdown b) = int (size {#r \<in># mset rows. tier r = 2#}) \<and>
     t3 (tierBreakdown b) = int (size {#r \<in># mset rows. tier r = 3#}) \<and>
     t1 (tierBreakdown b) + t2 (tierBreakdown b) + t3 (tierBreakdown b)
       = totalActions b - int (size {#r \<in># mset rows. tier r \<notin> {1, 2, 3}#})"
proof -
  have part: "length (filter (\<lambda>r. key_was_valid r \<noteq> 1) rows) = length rows - length (filter (\<lambda>r. key_was_valid r = 1) rows)"
    using sum_length_filter_compl [of "\<lambda>r. key_was_valid r = 1" rows] by simp
  have tiers: "length (filter (\<lambda>r. tier r = 1) rows) + length (filter (\<lambda>r. tier r = 2) rows) + length (filter (\<lambda>r. tier r = 3) rows) + length (filter (\<lambda>r. tier r \<notin> {1,2,3}) rows) = length rows"
    by (induction rows) auto
  show ?thesis
    using assms part tiers
    by (simp add: get_stats_def Let_def size_filter_mset_length count_rows_def)
qed

theorem get_stats_counts_witness:
  "map tier (stored_actions (lifetime start0 stats_calls)) = [1, 1, 2, 3, 1] \<and>
   map key_was_valid (stored_actions (lifetime start0 stats_calls)) = [0, 1, 1, 1, 0] \<and>
   (\<exists>b. get_stats (\<lambda>ts. Some (take 10 ts)) ''2024-05-01'' (db (lifetime start0 stats_calls)) = Json b \<and>
      totalActions b = 5 \<and> verifiedCount b = 3 \<and> unverifiedCount b = 2 \<and> blockedCount b = 1 \<and>
      unverifiedTier1Count b = 2 \<and> tierBreakdown b = \<lparr>t1 = 3, t2 = 1, t3 = 1\<rparr>)"
proof -
  let ?s = "lifetime start0 stats_calls"
  obtain d rows where s: "db ?s = Some d" "actions_tbl d = Some rows"
    and ts: "map tier rows = [1, 1, 2, 3, 1]" "map key_was_valid rows = [0, 1, 1, 1, 0]"
      "map verdict rows = [''pass'', ''pass'', ''block'', ''warn'', ''pass'']"
    by (simp add: lifetime_def stats_calls_def constructor_def initialize_def logAction_def
        next_id_def entry_def Let_def)
  from s have rows: "stored_actions ?s = rows"
    by (simp add: stored_actions_def)
  from ts obtain a b c e f where abc: "rows = [a, b, c, e, f]"
    by auto
  from get_stats_counts [OF s(2), of "\<lambda>ts. Some (take 10 ts)" "''2024-05-01''"] 
  obtain body where "get_stats (\<lambda>ts. Some (take 10 ts)) ''2024-05-01'' (Some d) = Json body"
     "totalActions body = int (size (mset rows))"
     "verifiedCount body = int (size {#r \<in># mset rows. key_was_valid r = 1#})"
     "unverifiedCount body = totalActions body - verifiedCount body"
     "blockedCount body = int (size {#r \<in># mset rows. verdict r = ''block''#})"
     "unverifiedTier1Count body = int (size {#r \<in># mset rows. key_was_valid r = 0 \<and> tier r = 1#})"
     "t1 (tierBreakdown body) = int (size {#r \<in># mset rows. tier r = 1#})"
     "t2 (tierBreakdown body) = int (size {#r \<in># mset rows. tier r = 2#})"
     "t3 (tierBreakdown body) = int (size {#r \<in># mset rows. tier r = 3#})"
    by blast
  with ts abc s rows show ?thesis
    by (cases "tierBreakdown body") auto
qed

subsection \<open>The query engine\<close>






lemma conditions_limit_offset [simp]:
  "conditions (q\<lparr>q_limit := l, q_offset := off\<rparr>) = conditions q"
  by (simp add: conditions_def tier_param_def)

lemma get_logs_Json:
  "actions_tbl d = Some rows \<Longrightarrow>
   get_logs order_by (Some d) q =
     Json \<lparr>actions = limit_offset (logs_limit q) (logs_offset q) (order_by (matching q rows)),
           total = int (length (matching q rows))\<rparr>"
  by (simp add: get_logs_def Let_def logs_limit_def logs_offset_def matching_def)







lemmas parseInt_simps = parseInt_def parseInt_param_def is_whitespace_def is_digit_def digit_value_def or_default_def Let_def


subsection \<open>The search filter\<close>

lemma like_percent: "like (CHR ''%'' # ps) t = (\<exists>i\<le>length t. like ps (drop i t))"
proof (induction t)
  case Nil
  then show ?case by simp
next
  case (Cons c cs)
  have "(\<exists>i\<le>length (c # cs). like ps (drop i (c # cs))) =
        (like ps (c # cs) \<or> (\<exists>i\<le>length cs. like ps (drop i cs)))"
    (is "?l = ?r")
  proof
    assume ?l
    then obtain i where i: "i \<le> length (c # cs)" "like ps (drop i (c # cs))" by blast
    show ?r
    proof (cases i)
      case 0
      with i show ?thesis by simp
    next
      case (Suc j)
      with i show ?thesis by auto
    qed
  next
    assume ?r
    then show ?l
    proof
      assume "like ps (c # cs)"
      then have "like ps (drop 0 (c # cs))" by simp
      then show ?l by blast
    next
      assume "\<exists>i\<le>length cs. like ps (drop i cs)"
      then obtain i where "i \<le> length cs" "like ps (drop i cs)" by blast
      then have "Suc i \<le> length (c # cs)" "like ps (drop (Suc i) (c # cs))" by simp_all
      then show ?l by blast
    qed
  qed
  with Cons show ?case by simp
qed

lemma like_literal:
  "wildcard_free s \<Longrightarrow>
   like (s @ ps) t =
     (length s \<le> length t \<and> map lower (take (length s) t) = map lower s \<and> like ps (drop (length s) t))"
proof (induction s arbitrary: t)
  case Nil
  then show ?case by simp
next
  case (Cons p s)
  then have p: "p \<noteq> CHR ''%''" "p \<noteq> CHR ''_''" and s: "wildcard_free s"
    by (simp_all add: wildcard_free_def)
  show ?case
  proof (cases t)
    case Nil
    with p show ?thesis by simp
  next
    case (Cons c cs)
    with p Cons.IH [OF s, of cs] show ?thesis by auto
  qed
qed

lemma like_only_percent: "like ''%'' t"
  by (induction t) simp_all

lemma search_pattern_substring:
  assumes "wildcard_free s"
  shows "like (''%'' @ s @ ''%'') t = contains_ci s t"
proof -
  have "like (''%'' @ s @ ''%'') t = (\<exists>i\<le>length t. like (s @ ''%'') (drop i t))"
    using like_percent [of "s @ ''%''" t] by simp
  also have "\<dots> = (\<exists>i\<le>length t. map lower (take (length s) (drop i t)) = map lower s)"
  proof -
    have "like (s @ ''%'') u = (map lower (take (length s) u) = map lower s)" for u
    proof -
      have "map lower (take (length s) u) = map lower s \<Longrightarrow> length s \<le> length u"
        by (metis length_map length_take min.absorb_iff2 min.commute nat_le_linear)
      then show ?thesis
        using like_literal [OF assms, of "''%''" u] like_only_percent by auto
    qed
    then show ?thesis by simp
  qed
  also have "\<dots> = contains_ci s t"
    unfolding contains_ci_def list_ex_iff set_upt
    by (metis atLeastLessThan_iff less_Suc_eq_le zero_le)
  finally show ?thesis .
qed

lemma search_hit_substring: "wildcard_free s \<Longrightarrow> search_hit s r = substring_hit s r"
  using search_pattern_substring [of s] by (simp add: search_hit_def substring_hit_def)

lemma like_prefix_then:
  "length s \<le> length t \<Longrightarrow> map lower (take (length s) t) = map lower s \<Longrightarrow>
   like ps (drop (length s) t) \<Longrightarrow> like (s @ ps) t"
proof (induction s arbitrary: t)
  case Nil
  then show ?case by simp
next
  case (Cons p s)
  then obtain c cs where t: "t = c # cs"
    by (cases t) auto
  with Cons.prems have rest: "like (s @ ps) cs" and hd: "lower p = lower c"
    using Cons.IH [of cs] by auto
  show ?case
  proof (cases "p = CHR ''%''")
    case True
    have "like (s @ ps) (drop 1 (c # cs))" using rest by simp
    then have "\<exists>i\<le>length (c # cs). like (s @ ps) (drop i (c # cs))"
      by (metis One_nat_def Suc_le_mono length_Cons zero_le)
    with True t show ?thesis
      using like_percent [of "s @ ps" "c # cs"] by simp
  next
    case False
    with t rest hd show ?thesis by simp
  qed
qed

lemma substring_is_found: "contains_ci s t \<Longrightarrow> like (''%'' @ s @ ''%'') t"
proof -
  assume "contains_ci s t"
  then obtain i where i: "i \<le> length t" "map lower (take (length s) (drop i t)) = map lower s"
    unfolding contains_ci_def list_ex_iff set_upt
    by (metis atLeastLessThan_iff less_Suc_eq_le)
  from i(2) have "length s \<le> length (drop i t)"
    by (metis length_map length_take min.absorb_iff2 min.commute nat_le_linear)
  with i(2) have "like (s @ ''%'') (drop i t)"
    using like_prefix_then [of s "drop i t" "''%''"] like_only_percent by simp
  with i(1) show ?thesis
    using like_percent [of "s @ ''%''" t] by auto
qed

text \<open>
  C9, at a search text the code treats differently from a substring search. The three
  stored events have the columns shown, none of which contains a percent sign, so no row
  has the text \<open>%\<close> as a substring of a searched column; the request with
  \<open>search=%\<close> nevertheless returns all three, because \<open>%\<close> is a wildcard of
  \<open>LIKE\<close> and the pattern is built from the text unescaped. (For a text without \<open>%\<close>
  and \<open>_\<close> the two agree, by \<open>search_hit_substring\<close>, and every row that contains the
  text is found, by \<open>substring_is_found\<close>.)
\<close>

theorem search_percent_matches_all:
  "map action_type (stored_actions (lifetime start0 calls0)) = [''send_email'', ''send_email'', ''send_email''] \<and>
   map target (stored_actions (lifetime start0 calls0)) = [''bob@example.com'', ''bob@example.com'', ''bob@example.com''] \<and>
   map description (stored_actions (lifetime start0 calls0)) = [''weekly report'', ''weekly report'', ''weekly report''] \<and>
   list_all (\<lambda>r. \<not> substring_hit ''%'' r) (stored_actions (lifetime start0 calls0)) \<and>
   (\<exists>b. get_logs sort_desc_stable (db (lifetime start0 calls0)) (query0\<lparr>q_search := Some ''%''\<rparr>) = Json b \<and>
        total b = 3 \<and> map action_id (actions b) = [3, 2, 1])"
proof -
  let ?s = "lifetime start0 calls0"
  let ?q = "query0\<lparr>q_search := Some ''%''\<rparr>"
  obtain d rows where s: "db ?s = Some d" "actions_tbl d = Some rows"
    and cols: "map action_type rows = [''send_email'', ''send_email'', ''send_email'']"
      "map target rows = [''bob@example.com'', ''bob@example.com'', ''bob@example.com'']"
      "map description rows = [''weekly report'', ''weekly report'', ''weekly report'']"
      "map action_id rows = [1, 2, 3]"
      "map timestamp rows =
        [''2024-03-31T23:59:59.999Z'', ''2024-04-01T10:00:00.000Z'', ''2024-04-20T08:00:00.000Z'']"
    by (simp add: lifetime_def calls0_def constructor_def initialize_def logAction_def
        next_id_def entry_def Let_def)
  from s have rows: "stored_actions ?s = rows"
    by (simp add: stored_actions_def)
  from cols obtain x y z where xyz: "rows = [x, y, z]"
    by auto
  have no: "\<not> substring_hit ''%'' x" "\<not> substring_hit ''%'' y" "\<not> substring_hit ''%'' z"
    using cols xyz by (simp_all add: substring_hit_def contains_ci_def lower_def)
  have "like ''%%%'' t" for t
    by (induction t) simp_all
  then have hit: "where_clause (conditions ?q) r" for r
    by (simp add: where_clause_def conditions_def query0_def tier_param_def truthy_def)
  have m: "matching ?q rows = rows"
    by (simp add: matching_def hit)
  have lim: "logs_limit ?q = 50" "logs_offset ?q = 0"
    by (simp_all add: logs_limit_def logs_offset_def query0_def parseInt_simps)
  have ord: "sort_desc_stable rows = [z, y, x]"
    using cols xyz by (simp add: sort_desc_stable_def)
  have "get_logs sort_desc_stable (Some d) ?q = Json \<lparr>actions = [z, y, x], total = 3\<rparr>"
    unfolding get_logs_Json [OF s(2)] m lim ord
    by (simp add: limit_offset_def xyz)
  with cols xyz no rows s show ?thesis
    by simp
qed

subsection \<open>The order of a page\<close>






lemma matching_limit_offset [simp]:
  "matching (q\<lparr>q_limit := l, q_offset := off\<rparr>) rows = matching q rows"
  by (simp add: matching_def)





subsection \<open>Limit, offset and tier of a request\<close>







text \<open>
  A tier that is present, not empty and read as \<open>NaN\<close> is not dropped: the condition
  \<open>tier = ?\<close> is added with \<open>NaN\<close> as its parameter, and no row is selected.
\<close>

lemma non_numeric_tier_selects_nothing:
  assumes "parseInt t = NaN" and "t \<noteq> []"
  shows "matching (q\<lparr>q_tier := Some t\<rparr>) rows = []"
proof -
  have "TierEq NaN \<in> set (conditions (q\<lparr>q_tier := Some t\<rparr>))"
    using assms by (simp add: conditions_def tier_param_def truthy_def parseInt_param_def)
  moreover have "\<not> holds (TierEq NaN) r" for r
    by simp
  ultimately have "\<not> where_clause (conditions (q\<lparr>q_tier := Some t\<rparr>)) r" for r
    unfolding where_clause_def list_all_iff by blast
  then show ?thesis
    by (simp add: matching_def)
qed

subsection \<open>The trend analyzer\<close>










subsection \<open>Best and worst day\<close>
















end
